theory Spec2Isabelle
  imports Complex_Main
begin

section \<open>Scalar helpers of the chromatic aberration filter\<close>

text \<open>
  The Cython source computes on 32-bit floats (\<open>DTYPE_t\<close>).  This development models a
  sample as a real number: every comparison, \<open>fmin\<close>, \<open>fmax\<close> and \<open>fabs\<close> of the source
  is the corresponding operation of the ordered field, as it is on finite floats, while
  sums, products and quotients are exact instead of rounded.
\<close>

type_synonym sample = real

text \<open>\<open>cdef int sign(DTYPE_t input)\<close>: 1, -1 or 0.\<close>

definition sign :: "sample \<Rightarrow> int" where
  "sign input = (if input > 0 then 1 else if input < 0 then - 1 else 0)"

text \<open>The C library functions the source imports from \<open>libc.math\<close>, on finite samples.\<close>

definition fmin :: "sample \<Rightarrow> sample \<Rightarrow> sample" where
  "fmin a b = (if a < b then a else b)"

definition fmax :: "sample \<Rightarrow> sample \<Rightarrow> sample" where
  "fmax a b = (if a < b then b else a)"

definition fabs :: "sample \<Rightarrow> sample" where
  "fabs a = (if a < 0 then - a else a)"

text \<open>\<open>cdef DTYPE_t clip(DTYPE_t K, DTYPE_t K_ref)\<close>, Eq. (9) of the paper.\<close>

definition clip :: "sample \<Rightarrow> sample \<Rightarrow> sample" where
  "clip K K_ref =
     (if K_ref > 0 then fmin K K_ref
      else if K_ref < 0 then fmax K K_ref
      else K_ref)"

section \<open>Arrays\<close>

text \<open>
  A two-dimensional memoryview \<open>DTYPE_t[:, ::1]\<close> is modelled by its contents, a function
  from row and column to the sample stored there; a one-dimensional one by a function of
  the index.  The shape \<open>(M, N)\<close> travels beside it, as in the source's \<open>grad\<close>.
  The source switches bounds checking off; every index the loops below form lies inside
  the shape whenever the loop body runs.

  \<open>np.empty\<close> returns memory that is not initialised.  Wherever the source reads a cell
  of such an array before writing it, the model takes the array's prior contents as an
  argument, so that a statement about the code holds for whatever the memory held.
\<close>

type_synonym plane = "nat \<Rightarrow> nat \<Rightarrow> sample"
type_synonym vec = "nat \<Rightarrow> sample"

text \<open>\<open>transpose\<close>: \<open>Xt[j, i] = X[i, j]\<close> for every cell of the fresh array.\<close>

definition transpose2D :: "plane \<Rightarrow> plane" where
  "transpose2D X = (\<lambda>j i. X i j)"

text \<open>
  \<open>grad\<close>: the difference to the left neighbour, written for the columns \<open>1 \<le> j < N\<close>
  only; column 0 of the output buffer \<open>grad_X\<close> keeps what it held.
\<close>

definition grad :: "plane \<Rightarrow> nat \<Rightarrow> nat \<Rightarrow> plane \<Rightarrow> plane" where
  "grad X M N grad_X =
     (\<lambda>i j. if i < M \<and> 1 \<le> j \<and> j < N then X i j - X i (j - 1) else grad_X i j)"

section \<open>The 1D filter: transient improvement and false colour filtering\<close>

text \<open>The constant \<open>eps = 1e-8\<close> of \<open>ti_and_ca_filtering1D\<close>.\<close>

definition eps :: sample where
  "eps = 1 / 10 ^ 8"

subsection \<open>Local maxima and minima, Eqs. (2) and (3)\<close>

text \<open>
  The four running extrema \<open>X_Emax[i]\<close>, \<open>X_Emin[i]\<close>, \<open>X_Wmax[i]\<close>, \<open>X_Wmin[i]\<close> of row
  \<open>i\<close>.  They are assigned at the start of every pixel before they are read.
\<close>

record extrema =
  X_Emax :: sample
  X_Emin :: sample
  X_Wmax :: sample
  X_Wmin :: sample

text \<open>One iteration \<open>l\<close> of the loop \<open>for l in range(0, L, 1)\<close> over the row \<open>x = X_in[i, :]\<close>.\<close>

definition minmax_step :: "vec \<Rightarrow> nat \<Rightarrow> nat \<Rightarrow> nat \<Rightarrow> extrema \<Rightarrow> extrema" where
  "minmax_step x j L l e =
     \<lparr>X_Emax = (if x (j + l + 1) > X_Emax e then x (j + l + 1) else X_Emax e),
      X_Emin = (if x (j + l + 1) < X_Emin e then x (j + l + 1) else X_Emin e),
      X_Wmax = (if x (j - L + l) > X_Wmax e then x (j - L + l) else X_Wmax e),
      X_Wmin = (if x (j - L + l) < X_Wmin e then x (j - L + l) else X_Wmin e)\<rparr>"

definition minmax :: "vec \<Rightarrow> nat \<Rightarrow> nat \<Rightarrow> extrema" where
  "minmax x j L =
     fold (minmax_step x j L) [0..<L]
       \<lparr>X_Emax = x j, X_Emin = x j, X_Wmax = x j, X_Wmin = x j\<rparr>"

text \<open>Select the best couple of values: the pair \<open>(X_max[i, j], X_min[i, j])\<close>.\<close>

definition select_couple :: "extrema \<Rightarrow> sample \<times> sample" where
  "select_couple e =
     (if X_Emax e - X_Wmin e \<ge> X_Wmax e - X_Emin e
      then (X_Emax e, X_Wmin e)
      else (X_Wmax e, X_Emin e))"

subsection \<open>The loop over the window, Eqs. (1), (4), (5), (7), (9) to (12)\<close>

text \<open>
  The state the window loop of one pixel \<open>(i, j)\<close> works on: the scratch row
  \<open>K_TI[i, :]\<close>, the output cell \<open>K_hor[i, j]\<close> and the sum \<open>W_K_sum[i]\<close>.
  The scratch cells \<open>X_pf[i, l]\<close>, \<open>X_TImax[i, l]\<close>, \<open>X_TImin[i, l]\<close>, \<open>X_TI[i, l]\<close> and
  \<open>W_K[i, l]\<close> are written in iteration \<open>l\<close> before they are read there and never read
  again, so they are local values of the iteration.
\<close>

record window_state =
  K_TI_i :: vec
  K_hor_ij :: sample
  W_K_sum :: sample

text \<open>
  The denominator of the gradients' weights, Eq. (12): the divisor of
  \<open>W_K[i, l] /= ...\<close>, where \<open>k\<close> is \<open>K_TI[i, l]\<close> and \<open>y\<close>, \<open>gx\<close>, \<open>gg\<close> are the rows \<open>i\<close>
  of \<open>Y_in\<close>, \<open>grad_X\<close>, \<open>grad_G\<close>.
\<close>

definition W_K_den :: "vec \<Rightarrow> vec \<Rightarrow> vec \<Rightarrow> nat \<Rightarrow> sample \<Rightarrow> nat \<Rightarrow> nat \<Rightarrow> sample \<Rightarrow> sample" where
  "W_K_den y gx gg L alpha_X j l k =
     fabs (gg (j + l - L)) + fmax (fabs (gx (j + l - L))) (alpha_X * fabs k)
       + fabs (y j - y (j + l - L)) + eps"

text \<open>
  One iteration \<open>l\<close> of \<open>for l in range(0, LL, 1)\<close>.  \<open>x\<close> and \<open>g\<close> are the rows \<open>i\<close> of
  \<open>X_in\<close> and \<open>G_in\<close>; \<open>xmax\<close>, \<open>xmin\<close> are \<open>X_max[i, j]\<close>, \<open>X_min[i, j]\<close>.  The centre
  \<open>K_TI[i, L]\<close> is read from the scratch row as it stands: for \<open>l < L\<close> it has not been
  written yet for this pixel.
\<close>

definition window_step ::
  "vec \<Rightarrow> vec \<Rightarrow> vec \<Rightarrow> vec \<Rightarrow> vec \<Rightarrow> nat \<Rightarrow> sample list \<Rightarrow> sample \<Rightarrow> sample \<Rightarrow>
   nat \<Rightarrow> sample \<Rightarrow> sample \<Rightarrow> nat \<Rightarrow> window_state \<Rightarrow> window_state" where
  "window_step x g y gx gg L rho alpha_X tau j xmax xmin l s =
     (let X_pf = (if x j > g j
                  then rho ! 0 * xmax + rho ! 1 * x (j + l - L) + rho ! 2 * xmin
                  else rho ! 0 * xmin + rho ! 1 * x (j + l - L) + rho ! 2 * xmax);
          X_TImax = (if x j > g j then x (j + l - L) else fmin xmax (g (j + l - L)));
          X_TImin = (if x j > g j then fmax xmin (g (j + l - L)) else x (j + l - L));
          X_TI = (if X_pf > X_TImax then X_TImax
                  else if X_pf < X_TImin then X_TImin
                  else X_pf);
          K_TI' = (K_TI_i s)(l := X_TI - g (j + l - L));
          W_K = (if sign (K_TI' L) = sign (K_TI' l) \<or> fabs (K_TI' l) < tau then 1 else 0)
                / W_K_den y gx gg L alpha_X j l (K_TI' l)
      in \<lparr>K_TI_i = K_TI',
          K_hor_ij = K_hor_ij s + W_K * clip (K_TI' l) (K_TI' L),
          W_K_sum = W_K_sum s + W_K\<rparr>)"

text \<open>
  The whole loop of one pixel.  On entry the scratch row is \<open>kti\<close>, the output cell
  \<open>K_hor[i, j]\<close> holds \<open>k0\<close> (the source adds to the cell with \<open>+=\<close> and never assigns it
  before), and \<open>W_K_sum[i]\<close> has been set to 0.
\<close>

definition window_loop ::
  "vec \<Rightarrow> vec \<Rightarrow> vec \<Rightarrow> vec \<Rightarrow> vec \<Rightarrow> nat \<Rightarrow> sample list \<Rightarrow> sample \<Rightarrow> sample \<Rightarrow>
   nat \<Rightarrow> sample \<Rightarrow> sample \<Rightarrow> vec \<Rightarrow> sample \<Rightarrow> window_state" where
  "window_loop x g y gx gg L rho alpha_X tau j xmax xmin kti k0 =
     fold (window_step x g y gx gg L rho alpha_X tau j xmax xmin) [0..<2 * L + 1]
       \<lparr>K_TI_i = kti, K_hor_ij = k0, W_K_sum = 0\<rparr>"

subsection \<open>One pixel, one row, the whole plane\<close>

text \<open>
  Row \<open>i\<close> of the arrays the function writes: the four outputs and the scratch row of
  \<open>K_TI\<close>, which survives from one pixel of the row to the next.
\<close>

record row_state =
  K_hor_row :: vec
  K_TI_hor_row :: vec
  X_max_row :: vec
  X_min_row :: vec
  K_TI_row :: vec

text \<open>The body of \<open>for j in range(L, N - L, 1)\<close>.\<close>

definition pixel ::
  "vec \<Rightarrow> vec \<Rightarrow> vec \<Rightarrow> vec \<Rightarrow> vec \<Rightarrow> nat \<Rightarrow> sample list \<Rightarrow> sample \<Rightarrow> sample \<Rightarrow>
   nat \<Rightarrow> row_state \<Rightarrow> row_state" where
  "pixel x g y gx gg L rho alpha_X tau j r =
     (let (xmax, xmin) = select_couple (minmax x j L);
          s = window_loop x g y gx gg L rho alpha_X tau j xmax xmin (K_TI_row r)
                (K_hor_row r j)
      in \<lparr>K_hor_row = (K_hor_row r)(j := K_hor_ij s / (W_K_sum s + eps)),
          K_TI_hor_row = (K_TI_hor_row r)(j := K_TI_i s L),
          X_max_row = (X_max_row r)(j := xmax),
          X_min_row = (X_min_row r)(j := xmin),
          K_TI_row = K_TI_i s\<rparr>)"

text \<open>The four output planes of the filter.\<close>

record filtered =
  K_hor :: plane
  K_TI_hor :: plane
  X_max :: plane
  X_min :: plane

text \<open>
  The loops of \<open>ti_and_ca_filtering1D\<close> for a half-size \<open>L \<ge> 0\<close>.  The outer loop is a
  \<open>prange\<close> over the rows \<open>L \<le> i < M - L\<close>; iteration \<open>i\<close> reads and writes row \<open>i\<close> of the
  arrays only, so each row is computed on its own from what the buffers held.  The
  arguments \<open>out0\<close> are the contents of the four output buffers on entry, \<open>gX0\<close>, \<open>gG0\<close>
  and \<open>KTI0\<close> those of the fresh \<open>np.empty\<close> arrays \<open>grad_X\<close>, \<open>grad_G\<close> and \<open>K_TI\<close>.
\<close>

definition filter_row ::
  "plane \<Rightarrow> plane \<Rightarrow> plane \<Rightarrow> nat \<Rightarrow> nat \<Rightarrow> nat \<Rightarrow> sample list \<Rightarrow> sample \<Rightarrow> sample \<Rightarrow>
   filtered \<Rightarrow> plane \<Rightarrow> plane \<Rightarrow> plane \<Rightarrow> nat \<Rightarrow> row_state" where
  "filter_row X_in G_in Y_in M N L rho alpha_X tau out0 gX0 gG0 KTI0 i =
     fold (pixel (X_in i) (G_in i) (Y_in i) (grad X_in M N gX0 i) (grad G_in M N gG0 i)
             L rho alpha_X tau)
       [L..<N - L]
       \<lparr>K_hor_row = K_hor out0 i, K_TI_hor_row = K_TI_hor out0 i,
        X_max_row = X_max out0 i, X_min_row = X_min out0 i, K_TI_row = KTI0 i\<rparr>"

definition filter_loops ::
  "plane \<Rightarrow> plane \<Rightarrow> plane \<Rightarrow> nat \<Rightarrow> nat \<Rightarrow> nat \<Rightarrow> sample list \<Rightarrow> sample \<Rightarrow> sample \<Rightarrow>
   filtered \<Rightarrow> plane \<Rightarrow> plane \<Rightarrow> plane \<Rightarrow> filtered" where
  "filter_loops X_in G_in Y_in M N L rho alpha_X tau out0 gX0 gG0 KTI0 =
     (let row = filter_row X_in G_in Y_in M N L rho alpha_X tau out0 gX0 gG0 KTI0;
          inside = (\<lambda>i. L \<le> i \<and> i < M - L)
      in \<lparr>K_hor = (\<lambda>i. if inside i then K_hor_row (row i) else K_hor out0 i),
          K_TI_hor = (\<lambda>i. if inside i then K_TI_hor_row (row i) else K_TI_hor out0 i),
          X_max = (\<lambda>i. if inside i then X_max_row (row i) else X_max out0 i),
          X_min = (\<lambda>i. if inside i then X_min_row (row i) else X_min out0 i)\<rparr>)"

text \<open>
  A C \<open>int\<close> has 32 bits: \<open>c_int n\<close> is the value a C \<open>int\<close> holds after an operation whose
  mathematical result is \<open>n\<close> (two's complement wrap-around).
\<close>

definition c_int :: "int \<Rightarrow> int" where
  "c_int n = (n + 2 ^ 31) mod 2 ^ 32 - 2 ^ 31"

text \<open>
  The ways a call ends without a result.  \<open>ValueError\<close> and \<open>OverflowError\<close> are the
  Python exceptions.  \<open>OutOfBounds\<close> is no exception: the C code reads or writes a cell
  outside an array, which bounds checking, switched off in the source, would have
  refused; its behaviour is undefined from there on (a wrong cell is used, or the
  process dies with a segmentation fault).
\<close>

datatype error = ValueError | OverflowError | OutOfBounds

text \<open>
  \<open>ti_and_ca_filtering1D\<close> itself.  \<open>L\<close> is a C \<open>int\<close>, between \<open>- 2^31\<close> and \<open>2^31 - 1\<close>,
  and so is \<open>LL = 2 * L + 1\<close>, which wraps.  The scratch arrays are allocated with
  \<open>np.empty((M, LL))\<close>, which raises \<open>ValueError\<close> (negative dimensions are not allowed)
  when \<open>LL\<close> is negative; Cython 3, which the source is written for, propagates the
  exception out of the \<open>cdef\<close> function.  The gradients are computed before that
  allocation.  When \<open>LL\<close> has wrapped to a non-negative value for a negative \<open>L\<close>, the
  loops start at the negative index \<open>L\<close>.  For \<open>L \<ge> 0\<close> the loops read \<open>rho[0]\<close>, \<open>rho[1]\<close>
  and \<open>rho[2]\<close> as soon as there is a pixel to compute, that is when \<open>2 L < M\<close> and
  \<open>2 L < N\<close>.  Every allocation is taken to succeed.
\<close>

definition ti_and_ca_filtering1D ::
  "plane \<Rightarrow> plane \<Rightarrow> plane \<Rightarrow> nat \<Rightarrow> nat \<Rightarrow> int \<Rightarrow> sample list \<Rightarrow> sample \<Rightarrow> sample \<Rightarrow>
   filtered \<Rightarrow> plane \<Rightarrow> plane \<Rightarrow> plane \<Rightarrow> error + filtered" where
  "ti_and_ca_filtering1D X_in G_in Y_in M N L rho alpha_X tau out0 gX0 gG0 KTI0 =
     (let LL = c_int (2 * L + 1)
      in if LL < 0 then Inl ValueError
         else if L < 0 then Inl OutOfBounds
         else if length rho < 3 \<and> 2 * nat L < M \<and> 2 * nat L < N then Inl OutOfBounds
         else Inr (filter_loops X_in G_in Y_in M N (nat L) rho alpha_X tau out0 gX0 gG0 KTI0))"

section \<open>Arbitration\<close>

subsection \<open>Biased contrast, Eqs. (19) and (20)\<close>

text \<open>
  One iteration \<open>l\<close> of the horizontal pass's loop \<open>for l in range(0, L, 1)\<close> over the rows
  \<open>x = X[i, :]\<close> and \<open>g = G[i, :]\<close>, index for index as the source has it: the East
  candidates are read at \<open>j + l\<close>, the West candidates at \<open>j - L + l + 1\<close>, and the test for
  the East minimum reads \<open>G[i, L + l]\<close>.
\<close>

definition contrast_hor_step ::
  "vec \<Rightarrow> vec \<Rightarrow> sample \<Rightarrow> nat \<Rightarrow> nat \<Rightarrow> nat \<Rightarrow> extrema \<Rightarrow> extrema" where
  "contrast_hor_step x g beta_X j L l e =
     \<lparr>X_Emax = (if x (j + l) - beta_X * fabs (x (j + l) - g (j + l)) > X_Emax e
                then x (j + l) - beta_X * fabs (x (j + l) - g (j + l)) else X_Emax e),
      X_Emin = (if x (j + l) + beta_X * fabs (x (j + l) - g (L + l)) < X_Emin e
                then x (j + l) + beta_X * fabs (x (j + l) - g (j + l)) else X_Emin e),
      X_Wmax = (if x (j - L + l + 1) - beta_X * fabs (x (j - L + l + 1) - g (j - L + l + 1))
                     > X_Wmax e
                then x (j - L + l + 1) - beta_X * fabs (x (j - L + l + 1) - g (j - L + l + 1))
                else X_Wmax e),
      X_Wmin = (if x (j - L + l + 1) + beta_X * fabs (x (j - L + l + 1) - g (j - L + l + 1))
                     < X_Wmin e
                then x (j - L + l + 1) + beta_X * fabs (x (j - L + l + 1) - g (j - L + l + 1))
                else X_Wmin e)\<rparr>"

text \<open>
  The same iteration of the vertical pass, over the rows \<open>xt = Xt[i, :]\<close> and
  \<open>gt = Gt[i, :]\<close> of the transposed planes: East candidates at \<open>j + l + 1\<close>, West
  candidates at \<open>j - L + l\<close>, and the East minimum assigned
  \<open>Xt[i, j + l + 1] + beta_X * fabs(Xt[i, j + l] + 1 - Gt[i, j + l + 1])\<close>.
\<close>

definition contrast_ver_step ::
  "vec \<Rightarrow> vec \<Rightarrow> sample \<Rightarrow> nat \<Rightarrow> nat \<Rightarrow> nat \<Rightarrow> extrema \<Rightarrow> extrema" where
  "contrast_ver_step xt gt beta_X j L l e =
     \<lparr>X_Emax = (if xt (j + l + 1) - beta_X * fabs (xt (j + l + 1) - gt (j + l + 1)) > X_Emax e
                then xt (j + l + 1) - beta_X * fabs (xt (j + l + 1) - gt (j + l + 1))
                else X_Emax e),
      X_Emin = (if xt (j + l + 1) + beta_X * fabs (xt (j + l + 1) - gt (j + l + 1)) < X_Emin e
                then xt (j + l + 1) + beta_X * fabs (xt (j + l) + 1 - gt (j + l + 1))
                else X_Emin e),
      X_Wmax = (if xt (j - L + l) - beta_X * fabs (xt (j - L + l) - gt (j - L + l)) > X_Wmax e
                then xt (j - L + l) - beta_X * fabs (xt (j - L + l) - gt (j - L + l))
                else X_Wmax e),
      X_Wmin = (if xt (j - L + l) + beta_X * fabs (xt (j - L + l) - gt (j - L + l)) < X_Wmin e
                then xt (j - L + l) + beta_X * fabs (xt (j - L + l) - gt (j - L + l))
                else X_Wmin e)\<rparr>"

text \<open>
  The contrast of one pixel: the running extrema start at the centre sample, the loop
  runs, the couple is selected and its difference stored.  \<open>step\<close> is one of the two
  iterations above.
\<close>

definition contrast_pixel ::
  "(nat \<Rightarrow> nat \<Rightarrow> nat \<Rightarrow> extrema \<Rightarrow> extrema) \<Rightarrow> vec \<Rightarrow> nat \<Rightarrow> nat \<Rightarrow> sample" where
  "contrast_pixel step x j L =
     (let (Xp_max, Xp_min) =
            select_couple
              (fold (step j L) [0..<L]
                 \<lparr>X_Emax = x j, X_Emin = x j, X_Wmax = x j, X_Wmin = x j\<rparr>)
      in Xp_max - Xp_min)"

text \<open>
  The horizontal pass fills \<open>X_contrast_hor\<close>, a fresh \<open>np.empty((M, N))\<close> with contents
  \<open>C0\<close>, on \<open>L \<le> i < M - L\<close>, \<open>L \<le> j < N - L\<close>.
\<close>

definition contrast_hor :: "plane \<Rightarrow> plane \<Rightarrow> sample \<Rightarrow> nat \<Rightarrow> nat \<Rightarrow> nat \<Rightarrow> plane \<Rightarrow> plane" where
  "contrast_hor X G beta_X M N L C0 =
     (\<lambda>i j. if L \<le> i \<and> i < M - L \<and> L \<le> j \<and> j < N - L
            then contrast_pixel (contrast_hor_step (X i) (G i) beta_X) (X i) j L
            else C0 i j)"

text \<open>
  The vertical pass fills \<open>X_contrast_ver\<close>, a fresh \<open>np.empty((N, M))\<close> with contents
  \<open>C0\<close>, from the transposed planes on \<open>L \<le> i < N - L\<close>, \<open>L \<le> j < M - L\<close>, and transposes
  the result back to \<open>(M, N)\<close>.
\<close>

definition contrast_ver :: "plane \<Rightarrow> plane \<Rightarrow> sample \<Rightarrow> nat \<Rightarrow> nat \<Rightarrow> nat \<Rightarrow> plane \<Rightarrow> plane" where
  "contrast_ver X G beta_X M N L C0 =
     (let Xt = transpose2D X; Gt = transpose2D G
      in transpose2D
           (\<lambda>i j. if L \<le> i \<and> i < N - L \<and> L \<le> j \<and> j < M - L
                  then contrast_pixel (contrast_ver_step (Xt i) (Gt i) beta_X) (Xt i) j L
                  else C0 i j))"

subsection \<open>Arbitration weight and blend, Eqs. (21), (22) and (17)\<close>

text \<open>
  The weight \<open>alpha_K[i]\<close> of one pixel, and its divisor: the range
  \<open>X_max[i, j] - X_min[i, j]\<close> raised to \<open>gamma_2\<close> and capped at \<open>gamma_1\<close>.
\<close>

definition alpha_K_den :: "sample \<Rightarrow> sample \<Rightarrow> sample \<Rightarrow> sample \<Rightarrow> sample" where
  "alpha_K_den xmax xmin gamma_1 gamma_2 = fmin (fmax (xmax - xmin) gamma_2) gamma_1"

definition alpha_K :: "sample \<Rightarrow> sample \<Rightarrow> sample \<Rightarrow> sample \<Rightarrow> sample \<Rightarrow> sample" where
  "alpha_K X_contrast xmax xmin gamma_1 gamma_2 =
     fmin (fmax X_contrast 0 / alpha_K_den xmax xmin gamma_1 gamma_2) 1"

text \<open>
  \<open>arbitration\<close>; \<open>Xmax\<close> and \<open>Xmin\<close> are its arguments \<open>X_max\<close> and \<open>X_min\<close>.  The half-sizes are those the filter has accepted, so they are
  naturals here.  \<open>Ch0\<close> and \<open>Cv0\<close> are the contents of the fresh arrays
  \<open>X_contrast_hor\<close> and \<open>X_contrast_ver\<close>.  The result is the plane \<open>K_out\<close>, which the
  last loop writes at every cell.
\<close>

definition arbitration ::
  "plane \<Rightarrow> plane \<Rightarrow> plane \<Rightarrow> plane \<Rightarrow> plane \<Rightarrow> plane \<Rightarrow> sample \<Rightarrow> nat \<Rightarrow> nat \<Rightarrow> nat \<Rightarrow> nat \<Rightarrow>
   sample \<Rightarrow> sample \<Rightarrow> plane \<Rightarrow> plane \<Rightarrow> plane" where
  "arbitration K K_TI X G Xmax Xmin beta_X M N L_hor L_ver gamma_1 gamma_2 Ch0 Cv0 =
     (let X_contrast_hor = contrast_hor X G beta_X M N L_hor Ch0;
          X_contrast_ver = contrast_ver X G beta_X M N L_ver Cv0;
          X_contrast = (\<lambda>i j. if X_contrast_hor i j > X_contrast_ver i j
                               then X_contrast_hor i j else X_contrast_ver i j)
      in (\<lambda>i j. (1 - alpha_K (X_contrast i j) (Xmax i j) (Xmin i j) gamma_1 gamma_2)
                   * K_TI i j
                 + alpha_K (X_contrast i j) (Xmax i j) (Xmin i j) gamma_1 gamma_2 * K i j))"

section \<open>The transform\<close>

text \<open>
  An image is a three-dimensional array of 32-bit floats: its shape and its samples.
  An array of another rank or element type does not pass the typed signature
  \<open>np.ndarray[DTYPE_t, ndim=3]\<close> and is not an image here; likewise \<open>rho\<close> is a
  one-dimensional array of floats, a list.  The source reads \<open>shape[0]\<close> and \<open>shape[1]\<close>
  and the channels 0, 1 and 2; it never reads \<open>shape[2]\<close>, so with fewer than three
  channels the channel split reads outside the array as soon as there is a pixel.
\<close>

record image =
  shape0 :: nat
  shape1 :: nat
  shape2 :: nat
  samples :: "nat \<Rightarrow> nat \<Rightarrow> nat \<Rightarrow> sample"

text \<open>
  The merge of the horizontal and the vertical pass, Eqs. (16) and (18): where the
  horizontal chroma \<open>Kh\<close> is smaller in magnitude than the vertical one \<open>Kv\<close>, the cell of
  the vertical array is overwritten with the horizontal value.
\<close>

definition merge :: "plane \<Rightarrow> plane \<Rightarrow> plane \<Rightarrow> plane \<Rightarrow> plane" where
  "merge Kh Kv Vh Vv = (\<lambda>i j. if fabs (Kh i j) < fabs (Kv i j) then Vh i j else Vv i j)"

text \<open>The four output buffers of a filter call, allocated with \<open>np.empty\<close>.\<close>

definition buffers :: "(nat \<Rightarrow> plane) \<Rightarrow> nat \<Rightarrow> filtered" where
  "buffers mem k =
     \<lparr>K_hor = mem k, K_TI_hor = mem (k + 1), X_max = mem (k + 2), X_min = mem (k + 3)\<rparr>"

text \<open>The transposition of a vertical pass's four outputs back to \<open>(M, N)\<close>.\<close>

definition transpose_filtered :: "filtered \<Rightarrow> filtered" where
  "transpose_filtered f =
     \<lparr>K_hor = transpose2D (K_hor f), K_TI_hor = transpose2D (K_TI_hor f),
      X_max = transpose2D (X_max f), X_min = transpose2D (X_min f)\<rparr>"

text \<open>
  The part of \<open>correct_chromatic_aberration\<close> between the four filter calls and the
  final conversion to RGB: merge and arbitration, for one of the channels R and B.
  \<open>hor\<close> is the horizontal pass, \<open>ver\<close> the vertical pass transposed back.
\<close>

definition arbitrated ::
  "filtered \<Rightarrow> filtered \<Rightarrow> plane \<Rightarrow> plane \<Rightarrow> sample \<Rightarrow> nat \<Rightarrow> nat \<Rightarrow> nat \<Rightarrow> nat \<Rightarrow>
   sample \<Rightarrow> sample \<Rightarrow> plane \<Rightarrow> plane \<Rightarrow> plane" where
  "arbitrated hor ver X_in G_in beta_X M N L_hor L_ver gamma_1 gamma_2 Ch0 Cv0 =
     (let K = merge (K_hor hor) (K_hor ver) (K_hor hor) (K_hor ver);
          K_TI = merge (K_TI_hor hor) (K_TI_hor ver) (K_TI_hor hor) (K_TI_hor ver);
          Xmax = merge (K_TI_hor hor) (K_TI_hor ver) (X_max hor) (X_max ver);
          Xmin = merge (K_TI_hor hor) (K_TI_hor ver) (X_min hor) (X_min ver)
      in arbitration K K_TI X_in G_in Xmax Xmin beta_X M N L_hor L_ver gamma_1 gamma_2
           Ch0 Cv0)"

text \<open>
  \<open>correct_chromatic_aberration\<close>.  \<open>L_hor\<close> and \<open>L_ver\<close> arrive as Python integers and are
  converted to C \<open>int\<close> on entry, which raises \<open>OverflowError\<close> outside the 32-bit range.
  \<open>mem k\<close> is what the \<open>k\<close>-th array allocated with \<open>np.empty\<close> and read before it is
  completely written holds on allocation: the four output buffers and the three
  internal arrays of each of the four filter calls (0 to 27), and the two contrast
  arrays of each of the two arbitrations (28 to 31).  The planes \<open>R_in\<close>, \<open>G_in\<close>, \<open>B_in\<close>,
  \<open>Y_in\<close>, \<open>K_rout\<close>, \<open>K_bout\<close> and \<open>I_out\<close> are written at every cell before they are read.
\<close>

definition correct_chromatic_aberration ::
  "image \<Rightarrow> int \<Rightarrow> int \<Rightarrow> sample list \<Rightarrow> sample \<Rightarrow> sample \<Rightarrow> sample \<Rightarrow> sample \<Rightarrow> sample \<Rightarrow>
   sample \<Rightarrow> sample \<Rightarrow> (nat \<Rightarrow> plane) \<Rightarrow> error + image" where
  "correct_chromatic_aberration I_in L_hor L_ver rho tau alpha_R alpha_B beta_R beta_B
       gamma_1 gamma_2 mem =
     (let M = shape0 I_in; N = shape1 I_in;
          R_in = (\<lambda>i j. samples I_in i j 0);
          G_in = (\<lambda>i j. samples I_in i j 1);
          B_in = (\<lambda>i j. samples I_in i j 2);
          Y_in = (\<lambda>i j. 299 / 1000 * R_in i j + 587 / 1000 * G_in i j + 114 / 1000 * B_in i j)
      in
      if L_hor < - (2 ^ 31) \<or> 2 ^ 31 \<le> L_hor \<or> L_ver < - (2 ^ 31) \<or> 2 ^ 31 \<le> L_ver
      then Inl OverflowError
      else if shape2 I_in < 3 \<and> 0 < M \<and> 0 < N then Inl OutOfBounds
      else
      case ti_and_ca_filtering1D R_in G_in Y_in M N L_hor rho alpha_R tau
             (buffers mem 0) (mem 4) (mem 5) (mem 6) of
        Inl e \<Rightarrow> Inl e
      | Inr r_hor \<Rightarrow>
      case ti_and_ca_filtering1D B_in G_in Y_in M N L_hor rho alpha_B tau
             (buffers mem 7) (mem 11) (mem 12) (mem 13) of
        Inl e \<Rightarrow> Inl e
      | Inr b_hor \<Rightarrow>
      case ti_and_ca_filtering1D (transpose2D R_in) (transpose2D G_in) (transpose2D Y_in)
             N M L_ver rho alpha_R tau (buffers mem 14) (mem 18) (mem 19) (mem 20) of
        Inl e \<Rightarrow> Inl e
      | Inr r_ver \<Rightarrow>
      case ti_and_ca_filtering1D (transpose2D B_in) (transpose2D G_in) (transpose2D Y_in)
             N M L_ver rho alpha_B tau (buffers mem 21) (mem 25) (mem 26) (mem 27) of
        Inl e \<Rightarrow> Inl e
      | Inr b_ver \<Rightarrow>
        (let K_rout = arbitrated r_hor (transpose_filtered r_ver) R_in G_in beta_R M N
                        (nat L_hor) (nat L_ver) gamma_1 gamma_2 (mem 28) (mem 29);
             K_bout = arbitrated b_hor (transpose_filtered b_ver) B_in G_in beta_B M N
                        (nat L_hor) (nat L_ver) gamma_1 gamma_2 (mem 30) (mem 31)
         in Inr \<lparr>shape0 = M, shape1 = N, shape2 = 3,
                 samples = (\<lambda>i j c. if c = 0 then K_rout i j + G_in i j
                                     else if c = 1 then G_in i j
                                     else K_bout i j + G_in i j)\<rparr>))"

section \<open>What the loops compute\<close>

text \<open>
  The definitions of this section are not translations of source functions: they name
  the values the loops above are proved to compute, so that the results can be stated.
\<close>

text \<open>
  The chroma \<open>K_TI[i, l]\<close> that iteration \<open>l\<close> of the window loop of pixel \<open>(i, j)\<close> stores:
  Eqs. (1), (4), (5) and (7) on the rows \<open>x\<close> and \<open>g\<close>.
\<close>

definition K_TI_val :: "vec \<Rightarrow> vec \<Rightarrow> nat \<Rightarrow> sample list \<Rightarrow> nat \<Rightarrow> sample \<Rightarrow> sample \<Rightarrow> nat \<Rightarrow> sample" where
  "K_TI_val x g L rho j xmax xmin l =
     (let X_pf = (if x j > g j
                  then rho ! 0 * xmax + rho ! 1 * x (j + l - L) + rho ! 2 * xmin
                  else rho ! 0 * xmin + rho ! 1 * x (j + l - L) + rho ! 2 * xmax);
          X_TImax = (if x j > g j then x (j + l - L) else fmin xmax (g (j + l - L)));
          X_TImin = (if x j > g j then fmax xmin (g (j + l - L)) else x (j + l - L));
          X_TI = (if X_pf > X_TImax then X_TImax
                  else if X_pf < X_TImin then X_TImin
                  else X_pf)
      in X_TI - g (j + l - L))"

text \<open>The centre of the window, \<open>K_TI[i, L]\<close>, as the loop of pixel \<open>j\<close> leaves it.\<close>

definition K_TI_center :: "vec \<Rightarrow> vec \<Rightarrow> nat \<Rightarrow> sample list \<Rightarrow> nat \<Rightarrow> sample" where
  "K_TI_center x g L rho j =
     K_TI_val x g L rho j (fst (select_couple (minmax x j L))) (snd (select_couple (minmax x j L))) L"

text \<open>
  The centre chroma that iteration \<open>l\<close> reads: the value \<open>stale\<close> the scratch row held on
  entry while \<open>l < L\<close>, the centre \<open>kc\<close> of this pixel from \<open>l = L\<close> on.
\<close>

definition center_read :: "sample \<Rightarrow> sample \<Rightarrow> nat \<Rightarrow> nat \<Rightarrow> sample" where
  "center_read stale kc L l = (if l < L then stale else kc)"

text \<open>The weight \<open>W_K[i, l]\<close>, Eqs. (10) to (12), when the centre read is \<open>kc\<close>.\<close>

definition W_K_val ::
  "vec \<Rightarrow> vec \<Rightarrow> vec \<Rightarrow> vec \<Rightarrow> vec \<Rightarrow> nat \<Rightarrow> sample list \<Rightarrow> sample \<Rightarrow> sample \<Rightarrow>
   nat \<Rightarrow> sample \<Rightarrow> sample \<Rightarrow> sample \<Rightarrow> nat \<Rightarrow> sample" where
  "W_K_val x g y gx gg L rho alpha_X tau j xmax xmin kc l =
     (if sign kc = sign (K_TI_val x g L rho j xmax xmin l)
         \<or> fabs (K_TI_val x g L rho j xmax xmin l) < tau then 1 else 0)
     / W_K_den y gx gg L alpha_X j l (K_TI_val x g L rho j xmax xmin l)"

text \<open>
  The value the loops leave in \<open>K_hor[i, j]\<close> when the scratch centre held \<open>stale\<close> and
  the output cell held \<open>k0\<close> on entry to the pixel.
\<close>

definition FC_pixel ::
  "vec \<Rightarrow> vec \<Rightarrow> vec \<Rightarrow> vec \<Rightarrow> vec \<Rightarrow> nat \<Rightarrow> sample list \<Rightarrow> sample \<Rightarrow> sample \<Rightarrow>
   nat \<Rightarrow> sample \<Rightarrow> sample \<Rightarrow> sample" where
  "FC_pixel x g y gx gg L rho alpha_X tau j stale k0 =
     (let xmax = fst (select_couple (minmax x j L));
          xmin = snd (select_couple (minmax x j L));
          kc = K_TI_val x g L rho j xmax xmin L;
          w = (\<lambda>l. W_K_val x g y gx gg L rho alpha_X tau j xmax xmin (center_read stale kc L l) l)
      in (k0 + (\<Sum>l = 0..<2 * L + 1.
                  w l * clip (K_TI_val x g L rho j xmax xmin l) (center_read stale kc L l)))
         / ((\<Sum>l = 0..<2 * L + 1. w l) + eps))"

text \<open>
  What the scratch centre \<open>K_TI[i, L]\<close> holds on entry to pixel \<open>j\<close> of a row: the
  allocation's contents \<open>kti0\<close> at the first pixel \<open>j = L\<close>, the centre of pixel \<open>j - 1\<close>
  afterwards.
\<close>

definition stale_center :: "vec \<Rightarrow> vec \<Rightarrow> nat \<Rightarrow> sample list \<Rightarrow> sample \<Rightarrow> nat \<Rightarrow> sample" where
  "stale_center x g L rho kti0 j = (if j = L then kti0 else K_TI_center x g L rho (j - 1))"

section \<open>Reference definitions after the specification\<close>

text \<open>
  The false colour output as the specification words it: for the offsets of the window
  (index \<open>l\<close> from 0 to \<open>2 L\<close>, offset \<open>l - L\<close>), the weight is 1 if the chroma at the
  offset has the sign of the chroma at the window centre or is below \<open>tau\<close> in magnitude,
  else 0, divided by the gradient and luma term with its epsilon; the output is the
  weighted sum of the clipped chromas over the sum of the weights plus epsilon.  The
  centre is that of the pixel itself and the sum starts from zero.
\<close>

definition spec_FC ::
  "vec \<Rightarrow> vec \<Rightarrow> vec \<Rightarrow> vec \<Rightarrow> vec \<Rightarrow> nat \<Rightarrow> sample list \<Rightarrow> sample \<Rightarrow> sample \<Rightarrow> nat \<Rightarrow> sample" where
  "spec_FC x g y gx gg L rho alpha_X tau j =
     (let xmax = fst (select_couple (minmax x j L));
          xmin = snd (select_couple (minmax x j L));
          K_TI_offset = K_TI_val x g L rho j xmax xmin;
          K_TI_center = K_TI_offset L;
          weight = (\<lambda>l. (if sign (K_TI_offset l) = sign K_TI_center \<or> \<bar>K_TI_offset l\<bar> < tau
                             then 1 else 0)
                           / (\<bar>gg (j + l - L)\<bar> + max \<bar>gx (j + l - L)\<bar> (alpha_X * \<bar>K_TI_offset l\<bar>)
                              + \<bar>y j - y (j + l - L)\<bar> + eps))
      in (\<Sum>l = 0..<2 * L + 1. weight l * clip (K_TI_offset l) K_TI_center)
         / ((\<Sum>l = 0..<2 * L + 1. weight l) + eps))"

text \<open>
  \<open>clamp\<close> as the specification words it (floor at \<open>lo\<close>, cap at \<open>hi\<close>), and the blend
  weight \<open>alpha\<close> of its section 4.4, step 4.
\<close>

definition clamp :: "sample \<Rightarrow> sample \<Rightarrow> sample \<Rightarrow> sample" where
  "clamp v lo hi = min hi (max lo v)"

definition spec_alpha :: "sample \<Rightarrow> sample \<Rightarrow> sample \<Rightarrow> sample \<Rightarrow> sample \<Rightarrow> sample" where
  "spec_alpha contrast xmax xmin gamma_1 gamma_2 =
     clamp (max contrast 0 / clamp (xmax - xmin) gamma_2 gamma_1) 0 1"

text \<open>
  The horizontal biased contrast as the specification words it (section 4.4, step 1,
  with the half-windows of section 4.2, step 1): the East half-window is \<open>[j+1, j+L]\<close>,
  the West half-window \<open>[j-L, j-1]\<close>, each scanned together with the centre sample; the
  candidates for a maximum are \<open>X - beta_X |X - G|\<close>, those for a minimum
  \<open>X + beta_X |X - G|\<close>; the couple is selected by the rule of the filter and the contrast
  is its difference.
\<close>

definition spec_contrast_hor :: "plane \<Rightarrow> plane \<Rightarrow> sample \<Rightarrow> nat \<Rightarrow> nat \<Rightarrow> nat \<Rightarrow> sample" where
  "spec_contrast_hor X G beta_X L i j =
     (let hi = (\<lambda>k. X i k - beta_X * \<bar>X i k - G i k\<bar>);
          lo = (\<lambda>k. X i k + beta_X * \<bar>X i k - G i k\<bar>);
          East = [j + 1..<j + L + 1];
          West = [j - L..<j];
          Emax = fold max (map hi East) (X i j);
          Emin = fold min (map lo East) (X i j);
          Wmax = fold max (map hi West) (X i j);
          Wmin = fold min (map lo West) (X i j)
      in if Emax - Wmin \<ge> Wmax - Emin then Emax - Wmin else Wmax - Emin)"

section \<open>The window loop on floats with infinities and NaN\<close>

text \<open>
  The model above computes on reals, where no operation overflows.  To follow an
  overflow through the window loop, this section repeats the loop on values that are
  finite, infinite or NaN, with the arithmetic of IEEE 754 on the special values: a
  finite result of magnitude \<open>2^128 - 2^103\<close> or more becomes an infinity (the threshold
  of 32-bit floats under rounding to nearest), \<open>0 * inf\<close>, \<open>inf - inf\<close>, \<open>0 / 0\<close> and
  \<open>inf / inf\<close> are NaN, every comparison with NaN is false, and \<open>fmin\<close> and \<open>fmax\<close>
  return the other argument when one is NaN.  The rounding of finite results, the sign
  of zero and the double precision in which the C library's \<open>fabs\<close>, \<open>fmin\<close> and \<open>fmax\<close>
  return their results are not modelled; none of them changes a result that is an
  infinity or NaN in the evaluation below.
\<close>

datatype f32 = Fin real | PInf | NInf | NaN

definition f32_of :: "real \<Rightarrow> f32" where
  "f32_of r = (if r \<ge> 2 ^ 128 - 2 ^ 103 then PInf
               else if r \<le> - (2 ^ 128 - 2 ^ 103) then NInf
               else Fin r)"

fun f_lt :: "f32 \<Rightarrow> f32 \<Rightarrow> bool" where
  "f_lt NaN b = False"
| "f_lt a NaN = False"
| "f_lt PInf b = False"
| "f_lt a PInf = True"
| "f_lt a NInf = False"
| "f_lt NInf b = True"
| "f_lt (Fin a) (Fin b) = (a < b)"

fun f_neg :: "f32 \<Rightarrow> f32" where
  "f_neg NaN = NaN"
| "f_neg PInf = NInf"
| "f_neg NInf = PInf"
| "f_neg (Fin a) = Fin (- a)"

fun f_add :: "f32 \<Rightarrow> f32 \<Rightarrow> f32" where
  "f_add NaN b = NaN"
| "f_add a NaN = NaN"
| "f_add PInf NInf = NaN"
| "f_add NInf PInf = NaN"
| "f_add PInf b = PInf"
| "f_add a PInf = PInf"
| "f_add NInf b = NInf"
| "f_add a NInf = NInf"
| "f_add (Fin a) (Fin b) = f32_of (a + b)"

definition f_sub :: "f32 \<Rightarrow> f32 \<Rightarrow> f32" where
  "f_sub a b = f_add a (f_neg b)"

text \<open>The product of an infinity with \<open>b\<close>; \<open>pos\<close> tells the sign of the infinity.\<close>

fun inf_times :: "bool \<Rightarrow> f32 \<Rightarrow> f32" where
  "inf_times pos NaN = NaN"
| "inf_times pos PInf = (if pos then PInf else NInf)"
| "inf_times pos NInf = (if pos then NInf else PInf)"
| "inf_times pos (Fin b) =
     (if b = 0 then NaN else if (0 < b) = pos then PInf else NInf)"

fun f_mul :: "f32 \<Rightarrow> f32 \<Rightarrow> f32" where
  "f_mul NaN b = NaN"
| "f_mul PInf b = inf_times True b"
| "f_mul NInf b = inf_times False b"
| "f_mul (Fin a) NaN = NaN"
| "f_mul (Fin a) PInf = inf_times True (Fin a)"
| "f_mul (Fin a) NInf = inf_times False (Fin a)"
| "f_mul (Fin a) (Fin b) = f32_of (a * b)"

fun f_div :: "f32 \<Rightarrow> f32 \<Rightarrow> f32" where
  "f_div NaN b = NaN"
| "f_div a NaN = NaN"
| "f_div (Fin a) (Fin b) =
     (if b = 0 then (if a = 0 then NaN else if 0 < a then PInf else NInf)
      else f32_of (a / b))"
| "f_div (Fin a) b = Fin 0"
| "f_div PInf (Fin b) = (if 0 \<le> b then PInf else NInf)"
| "f_div NInf (Fin b) = (if 0 \<le> b then NInf else PInf)"
| "f_div a b = NaN"

fun f_abs :: "f32 \<Rightarrow> f32" where
  "f_abs NaN = NaN"
| "f_abs PInf = PInf"
| "f_abs NInf = PInf"
| "f_abs (Fin a) = Fin \<bar>a\<bar>"

fun f_min :: "f32 \<Rightarrow> f32 \<Rightarrow> f32" where
  "f_min NaN b = b"
| "f_min a NaN = a"
| "f_min a b = (if f_lt a b then a else b)"

fun f_max :: "f32 \<Rightarrow> f32 \<Rightarrow> f32" where
  "f_max NaN b = b"
| "f_max a NaN = a"
| "f_max a b = (if f_lt a b then b else a)"

text \<open>\<open>sign\<close> and \<open>clip\<close> of the source on these values.\<close>

definition f_sign :: "f32 \<Rightarrow> int" where
  "f_sign input = (if f_lt (Fin 0) input then 1 else if f_lt input (Fin 0) then - 1 else 0)"

definition f_clip :: "f32 \<Rightarrow> f32 \<Rightarrow> f32" where
  "f_clip K K_ref =
     (if f_lt (Fin 0) K_ref then f_min K K_ref
      else if f_lt K_ref (Fin 0) then f_max K K_ref
      else K_ref)"

text \<open>
  The state and one iteration of the window loop, as \<open>window_state\<close> and \<open>window_step\<close>
  above, operation for operation.
\<close>

record f_window_state =
  f_K_TI_i :: "nat \<Rightarrow> f32"
  f_K_hor_ij :: f32
  f_W_K_sum :: f32

definition f_window_step ::
  "(nat \<Rightarrow> f32) \<Rightarrow> (nat \<Rightarrow> f32) \<Rightarrow> (nat \<Rightarrow> f32) \<Rightarrow> (nat \<Rightarrow> f32) \<Rightarrow> (nat \<Rightarrow> f32) \<Rightarrow> nat \<Rightarrow>
   f32 list \<Rightarrow> f32 \<Rightarrow> f32 \<Rightarrow> nat \<Rightarrow> f32 \<Rightarrow> f32 \<Rightarrow> nat \<Rightarrow> f_window_state \<Rightarrow> f_window_state" where
  "f_window_step x g y gx gg L rho alpha_X tau j xmax xmin l s =
     (let X_pf = (if f_lt (g j) (x j)
                  then f_add (f_add (f_mul (rho ! 0) xmax) (f_mul (rho ! 1) (x (j + l - L))))
                         (f_mul (rho ! 2) xmin)
                  else f_add (f_add (f_mul (rho ! 0) xmin) (f_mul (rho ! 1) (x (j + l - L))))
                         (f_mul (rho ! 2) xmax));
          X_TImax = (if f_lt (g j) (x j) then x (j + l - L) else f_min xmax (g (j + l - L)));
          X_TImin = (if f_lt (g j) (x j) then f_max xmin (g (j + l - L)) else x (j + l - L));
          X_TI = (if f_lt X_TImax X_pf then X_TImax
                  else if f_lt X_pf X_TImin then X_TImin
                  else X_pf);
          K_TI' = (f_K_TI_i s)(l := f_sub X_TI (g (j + l - L)));
          W_K = f_div
                  (if f_sign (K_TI' L) = f_sign (K_TI' l) \<or> f_lt (f_abs (K_TI' l)) tau
                   then Fin 1 else Fin 0)
                  (f_add
                     (f_add
                        (f_add (f_abs (gg (j + l - L)))
                           (f_max (f_abs (gx (j + l - L))) (f_mul alpha_X (f_abs (K_TI' l)))))
                        (f_abs (f_sub (y j) (y (j + l - L)))))
                     (Fin eps))
      in \<lparr>f_K_TI_i = K_TI',
          f_K_hor_ij = f_add (f_K_hor_ij s) (f_mul W_K (f_clip (K_TI' l) (K_TI' L))),
          f_W_K_sum = f_add (f_W_K_sum s) W_K\<rparr>)"

text \<open>
  The cell \<open>K_hor[i, j]\<close> after the window loop and the division
  \<open>K_hor[i, j] /= W_K_sum[i] + eps\<close> that follows it.
\<close>

definition f_K_hor_cell ::
  "(nat \<Rightarrow> f32) \<Rightarrow> (nat \<Rightarrow> f32) \<Rightarrow> (nat \<Rightarrow> f32) \<Rightarrow> (nat \<Rightarrow> f32) \<Rightarrow> (nat \<Rightarrow> f32) \<Rightarrow> nat \<Rightarrow>
   f32 list \<Rightarrow> f32 \<Rightarrow> f32 \<Rightarrow> nat \<Rightarrow> f32 \<Rightarrow> f32 \<Rightarrow> (nat \<Rightarrow> f32) \<Rightarrow> f32 \<Rightarrow> f32" where
  "f_K_hor_cell x g y gx gg L rho alpha_X tau j xmax xmin kti k0 =
     (let s = fold (f_window_step x g y gx gg L rho alpha_X tau j xmax xmin) [0..<2 * L + 1]
                \<lparr>f_K_TI_i = kti, f_K_hor_ij = k0, f_W_K_sum = Fin 0\<rparr>
      in f_div (f_K_hor_ij s) (f_add (f_W_K_sum s) (Fin eps)))"

section \<open>Concrete inputs\<close>

text \<open>
  A constant plane, a plane that rises along both axes, a plane that is 1 at one cell
  and 0 elsewhere, the gray image of shape \<open>(M, N, 3)\<close> whose three channels are the
  plane \<open>v\<close>, and a memory in which every uninitialised array holds the sample \<open>c\<close>.
\<close>

definition dot :: "nat \<Rightarrow> nat \<Rightarrow> plane" where
  "dot i0 j0 = (\<lambda>i j. if i = i0 \<and> j = j0 then 1 else 0)"

definition gray_image :: "nat \<Rightarrow> nat \<Rightarrow> plane \<Rightarrow> image" where
  "gray_image M N v = \<lparr>shape0 = M, shape1 = N, shape2 = 3, samples = (\<lambda>i j c. v i j)\<rparr>"

definition flat :: "sample \<Rightarrow> plane" where
  "flat c = (\<lambda>i j. c)"

definition ramp :: plane where
  "ramp = (\<lambda>i j. real (i + 2 * j) / 8)"

definition uninit :: "sample \<Rightarrow> nat \<Rightarrow> plane" where
  "uninit c = (\<lambda>k. flat c)"

text \<open>A row of floats that holds the finite value \<open>c\<close> everywhere.\<close>

definition f_flat :: "real \<Rightarrow> nat \<Rightarrow> f32" where
  "f_flat c = (\<lambda>k. Fin c)"

section \<open>Properties\<close>

lemma fmin_min: "fmin a b = min a b"
  by (simp add: fmin_def min_def)

lemma fmax_max: "fmax a b = max a b"
  by (simp add: fmax_def max_def)

lemma fabs_abs: "fabs a = \<bar>a\<bar>"
  by (simp add: fabs_def abs_if)

subsection \<open>Entry into the filter\<close>

lemma c_int_id: "- (2 ^ 31) \<le> n \<Longrightarrow> n < 2 ^ 31 \<Longrightarrow> c_int n = n"
  by (simp add: c_int_def)

lemma filtering_returns:
  assumes "0 \<le> L" "L < 2 ^ 30" "3 \<le> length rho"
  shows "ti_and_ca_filtering1D X_in G_in Y_in M N L rho alpha_X tau out0 gX0 gG0 KTI0
         = Inr (filter_loops X_in G_in Y_in M N (nat L) rho alpha_X tau out0 gX0 gG0 KTI0)"
proof -
  have "c_int (2 * L + 1) = 2 * L + 1"
    using assms by (intro c_int_id) simp_all
  then show ?thesis
    using assms by (simp add: ti_and_ca_filtering1D_def)
qed


subsection \<open>The envelope\<close>

lemma minmax_fold_bounds:
  assumes "X_Emin e \<le> c" "c \<le> X_Emax e" "X_Wmin e \<le> c" "c \<le> X_Wmax e"
  shows "X_Emin (fold (minmax_step x j L) ls e) \<le> c \<and> c \<le> X_Emax (fold (minmax_step x j L) ls e)
       \<and> X_Wmin (fold (minmax_step x j L) ls e) \<le> c \<and> c \<le> X_Wmax (fold (minmax_step x j L) ls e)"
  using assms
proof (induction ls arbitrary: e)
  case Nil
  then show ?case by simp
next
  case (Cons l ls)
  show ?case
    unfolding fold_simps
    by (rule Cons.IH) (use Cons.prems in \<open>simp_all add: minmax_step_def\<close>)
qed

lemma minmax_bounds:
  "X_Emin (minmax x j L) \<le> x j \<and> x j \<le> X_Emax (minmax x j L)
   \<and> X_Wmin (minmax x j L) \<le> x j \<and> x j \<le> X_Wmax (minmax x j L)"
  unfolding minmax_def by (rule minmax_fold_bounds) simp_all

lemma select_couple_bounds:
  "snd (select_couple (minmax x j L)) \<le> x j \<and> x j \<le> fst (select_couple (minmax x j L))"
  using minmax_bounds [of x j L] by (simp add: select_couple_def)

subsection \<open>The window loop\<close>

lemma eps_pos: "0 < eps"
  by (simp add: eps_def)

lemma W_K_den_pos: "0 < W_K_den y gx gg L alpha_X j l k"
proof -
  have "0 \<le> fmax (fabs (gx (j + l - L))) (alpha_X * fabs k)"
    unfolding fmax_max fabs_abs
    by (rule order_trans [OF abs_ge_zero max.cobounded1])
  moreover have "0 \<le> fabs (gg (j + l - L))" "0 \<le> fabs (y j - y (j + l - L))"
    by (simp_all add: fabs_abs)
  ultimately show ?thesis
    unfolding W_K_den_def using eps_pos by linarith
qed

lemma window_step_K_TI_val:
  "window_step x g y gx gg L rho alpha_X tau j xmax xmin l s =
     (let K_TI' = (K_TI_i s)(l := K_TI_val x g L rho j xmax xmin l);
          W_K = (if sign (K_TI' L) = sign (K_TI' l) \<or> fabs (K_TI' l) < tau then 1 else 0)
                / W_K_den y gx gg L alpha_X j l (K_TI' l)
      in \<lparr>K_TI_i = K_TI',
          K_hor_ij = K_hor_ij s + W_K * clip (K_TI' l) (K_TI' L),
          W_K_sum = W_K_sum s + W_K\<rparr>)"
  unfolding window_step_def K_TI_val_def Let_def ..

lemma window_step_eq:
  "window_step x g y gx gg L rho alpha_X tau j xmax xmin l s =
     \<lparr>K_TI_i = (K_TI_i s)(l := K_TI_val x g L rho j xmax xmin l),
      K_hor_ij = K_hor_ij s
        + W_K_val x g y gx gg L rho alpha_X tau j xmax xmin
            (if l = L then K_TI_val x g L rho j xmax xmin l else K_TI_i s L) l
          * clip (K_TI_val x g L rho j xmax xmin l)
              (if l = L then K_TI_val x g L rho j xmax xmin l else K_TI_i s L),
      W_K_sum = W_K_sum s
        + W_K_val x g y gx gg L rho alpha_X tau j xmax xmin
            (if l = L then K_TI_val x g L rho j xmax xmin l else K_TI_i s L) l\<rparr>"
proof -
  have a: "((K_TI_i s)(l := K_TI_val x g L rho j xmax xmin l)) l = K_TI_val x g L rho j xmax xmin l"
    by simp
  have b: "((K_TI_i s)(l := K_TI_val x g L rho j xmax xmin l)) L
           = (if l = L then K_TI_val x g L rho j xmax xmin l else K_TI_i s L)"
    by simp
  show ?thesis
    unfolding window_step_K_TI_val Let_def a b W_K_val_def ..
qed

lemma W_K_val_nonneg: "0 \<le> W_K_val x g y gx gg L rho alpha_X tau j xmax xmin kc l"
  unfolding W_K_val_def
  using W_K_den_pos [of y gx gg L alpha_X j l "K_TI_val x g L rho j xmax xmin l"]
  by simp

text \<open>The state of the window loop after the iterations \<open>0 \<le> l < n\<close>.\<close>

lemma window_fold_upt:
  "fold (window_step x g y gx gg L rho alpha_X tau j xmax xmin) [0..<n]
     \<lparr>K_TI_i = kti, K_hor_ij = k0, W_K_sum = w0\<rparr>
   = \<lparr>K_TI_i = (\<lambda>k. if k < n then K_TI_val x g L rho j xmax xmin k else kti k),
      K_hor_ij = k0 + (\<Sum>l = 0..<n.
         W_K_val x g y gx gg L rho alpha_X tau j xmax xmin
           (center_read (kti L) (K_TI_val x g L rho j xmax xmin L) L l) l
         * clip (K_TI_val x g L rho j xmax xmin l)
             (center_read (kti L) (K_TI_val x g L rho j xmax xmin L) L l)),
      W_K_sum = w0 + (\<Sum>l = 0..<n.
         W_K_val x g y gx gg L rho alpha_X tau j xmax xmin
           (center_read (kti L) (K_TI_val x g L rho j xmax xmin L) L l) l)\<rparr>"
proof (induction n)
  case 0
  show ?case by simp
next
  case (Suc n)
  have c: "(if n = L then K_TI_val x g L rho j xmax xmin n
            else if L < n then K_TI_val x g L rho j xmax xmin L else kti L)
           = center_read (kti L) (K_TI_val x g L rho j xmax xmin L) L n"
    by (auto simp add: center_read_def)
  have u: "(\<lambda>k. if k < n then K_TI_val x g L rho j xmax xmin k else kti k)
             (n := K_TI_val x g L rho j xmax xmin n)
           = (\<lambda>k. if k < Suc n then K_TI_val x g L rho j xmax xmin k else kti k)"
    by (rule ext) (simp add: less_Suc_eq)
  let ?f = "window_step x g y gx gg L rho alpha_X tau j xmax xmin"
  let ?s0 = "\<lparr>K_TI_i = kti, K_hor_ij = k0, W_K_sum = w0\<rparr>"
  have "fold ?f [0..<Suc n] ?s0 = ?f n (fold ?f [0..<n] ?s0)"
    by simp
  also have "\<dots> = ?f n
     \<lparr>K_TI_i = (\<lambda>k. if k < n then K_TI_val x g L rho j xmax xmin k else kti k),
      K_hor_ij = k0 + (\<Sum>l = 0..<n.
         W_K_val x g y gx gg L rho alpha_X tau j xmax xmin
           (center_read (kti L) (K_TI_val x g L rho j xmax xmin L) L l) l
         * clip (K_TI_val x g L rho j xmax xmin l)
             (center_read (kti L) (K_TI_val x g L rho j xmax xmin L) L l)),
      W_K_sum = w0 + (\<Sum>l = 0..<n.
         W_K_val x g y gx gg L rho alpha_X tau j xmax xmin
           (center_read (kti L) (K_TI_val x g L rho j xmax xmin L) L l) l)\<rparr>"
    by (simp only: Suc.IH)
  also have "\<dots> = \<lparr>K_TI_i = (\<lambda>k. if k < Suc n then K_TI_val x g L rho j xmax xmin k else kti k),
      K_hor_ij = k0 + (\<Sum>l = 0..<Suc n.
         W_K_val x g y gx gg L rho alpha_X tau j xmax xmin
           (center_read (kti L) (K_TI_val x g L rho j xmax xmin L) L l) l
         * clip (K_TI_val x g L rho j xmax xmin l)
             (center_read (kti L) (K_TI_val x g L rho j xmax xmin L) L l)),
      W_K_sum = w0 + (\<Sum>l = 0..<Suc n.
         W_K_val x g y gx gg L rho alpha_X tau j xmax xmin
           (center_read (kti L) (K_TI_val x g L rho j xmax xmin L) L l) l)\<rparr>"
    unfolding window_step_eq window_state.simps u
    by (simp add: c del: fun_upd_apply)
  finally show ?case .
qed

lemma window_loop_eq:
  "window_loop x g y gx gg L rho alpha_X tau j xmax xmin kti k0
   = \<lparr>K_TI_i = (\<lambda>k. if k < 2 * L + 1 then K_TI_val x g L rho j xmax xmin k else kti k),
      K_hor_ij = k0 + (\<Sum>l = 0..<2 * L + 1.
         W_K_val x g y gx gg L rho alpha_X tau j xmax xmin
           (center_read (kti L) (K_TI_val x g L rho j xmax xmin L) L l) l
         * clip (K_TI_val x g L rho j xmax xmin l)
             (center_read (kti L) (K_TI_val x g L rho j xmax xmin L) L l)),
      W_K_sum = 0 + (\<Sum>l = 0..<2 * L + 1.
         W_K_val x g y gx gg L rho alpha_X tau j xmax xmin
           (center_read (kti L) (K_TI_val x g L rho j xmax xmin L) L l) l)\<rparr>"
  unfolding window_loop_def by (rule window_fold_upt)

subsection \<open>Pixels, rows and planes\<close>

lemma pixel_eq:
  "pixel x g y gx gg L rho alpha_X tau j r =
     \<lparr>K_hor_row = (K_hor_row r)(j := FC_pixel x g y gx gg L rho alpha_X tau j (K_TI_row r L) (K_hor_row r j)),
      K_TI_hor_row = (K_TI_hor_row r)(j := K_TI_center x g L rho j),
      X_max_row = (X_max_row r)(j := fst (select_couple (minmax x j L))),
      X_min_row = (X_min_row r)(j := snd (select_couple (minmax x j L))),
      K_TI_row = (\<lambda>k. if k < 2 * L + 1
                       then K_TI_val x g L rho j (fst (select_couple (minmax x j L)))
                              (snd (select_couple (minmax x j L))) k
                       else K_TI_row r k)\<rparr>"
  unfolding pixel_def split_beta Let_def window_loop_eq window_state.simps
    FC_pixel_def K_TI_center_def
  by simp

lemma pixel_K_hor_row:
  "K_hor_row (pixel x g y gx gg L rho alpha_X tau j r)
   = (K_hor_row r)(j := FC_pixel x g y gx gg L rho alpha_X tau j (K_TI_row r L) (K_hor_row r j))"
  unfolding pixel_eq row_state.simps ..

lemma pixel_K_TI_hor_row:
  "K_TI_hor_row (pixel x g y gx gg L rho alpha_X tau j r)
   = (K_TI_hor_row r)(j := K_TI_center x g L rho j)"
  unfolding pixel_eq row_state.simps ..

lemma pixel_X_max_row:
  "X_max_row (pixel x g y gx gg L rho alpha_X tau j r)
   = (X_max_row r)(j := fst (select_couple (minmax x j L)))"
  unfolding pixel_eq row_state.simps ..

lemma pixel_X_min_row:
  "X_min_row (pixel x g y gx gg L rho alpha_X tau j r)
   = (X_min_row r)(j := snd (select_couple (minmax x j L)))"
  unfolding pixel_eq row_state.simps ..

lemma pixel_K_TI_row_L:
  "K_TI_row (pixel x g y gx gg L rho alpha_X tau j r) L = K_TI_center x g L rho j"
  unfolding pixel_eq row_state.simps K_TI_center_def by simp

lemmas pixel_fields = pixel_K_hor_row pixel_K_TI_hor_row pixel_X_max_row pixel_X_min_row

lemma fold_pixel_upt:
  "K_TI_row (fold (pixel x g y gx gg L rho alpha_X tau) [L..<L + d] r) L
     = stale_center x g L rho (K_TI_row r L) (L + d)
   \<and> K_hor_row (fold (pixel x g y gx gg L rho alpha_X tau) [L..<L + d] r)
     = (\<lambda>k. if L \<le> k \<and> k < L + d
            then FC_pixel x g y gx gg L rho alpha_X tau k
                   (stale_center x g L rho (K_TI_row r L) k) (K_hor_row r k)
            else K_hor_row r k)
   \<and> K_TI_hor_row (fold (pixel x g y gx gg L rho alpha_X tau) [L..<L + d] r)
     = (\<lambda>k. if L \<le> k \<and> k < L + d then K_TI_center x g L rho k else K_TI_hor_row r k)
   \<and> X_max_row (fold (pixel x g y gx gg L rho alpha_X tau) [L..<L + d] r)
     = (\<lambda>k. if L \<le> k \<and> k < L + d then fst (select_couple (minmax x k L)) else X_max_row r k)
   \<and> X_min_row (fold (pixel x g y gx gg L rho alpha_X tau) [L..<L + d] r)
     = (\<lambda>k. if L \<le> k \<and> k < L + d then snd (select_couple (minmax x k L)) else X_min_row r k)"
proof (induction d)
  case 0
  have "\<And>f h. (\<lambda>k. if L \<le> k \<and> k < L then h k else f k) = (f :: vec)"
    by (rule ext) simp
  then show ?case by (simp add: stale_center_def)
next
  case (Suc d)
  let ?p = "pixel x g y gx gg L rho alpha_X tau"
  let ?r = "fold ?p [L..<L + d] r"
  have step: "fold ?p [L..<L + Suc d] r = ?p (L + d) ?r"
    by simp
  have 1: "K_TI_row (?p (L + d) ?r) L = stale_center x g L rho (K_TI_row r L) (L + Suc d)"
    unfolding pixel_K_TI_row_L by (simp add: stale_center_def)
  have 2: "K_hor_row (?p (L + d) ?r)
     = (\<lambda>k. if L \<le> k \<and> k < L + Suc d
            then FC_pixel x g y gx gg L rho alpha_X tau k
                   (stale_center x g L rho (K_TI_row r L) k) (K_hor_row r k)
            else K_hor_row r k)"
    by (rule ext) (simp add: pixel_fields Suc.IH less_Suc_eq)
  have 3: "K_TI_hor_row (?p (L + d) ?r)
     = (\<lambda>k. if L \<le> k \<and> k < L + Suc d then K_TI_center x g L rho k else K_TI_hor_row r k)"
    by (rule ext) (simp add: pixel_fields Suc.IH less_Suc_eq)
  have 4: "X_max_row (?p (L + d) ?r)
     = (\<lambda>k. if L \<le> k \<and> k < L + Suc d then fst (select_couple (minmax x k L)) else X_max_row r k)"
    by (rule ext) (simp add: pixel_fields Suc.IH less_Suc_eq)
  have 5: "X_min_row (?p (L + d) ?r)
     = (\<lambda>k. if L \<le> k \<and> k < L + Suc d then snd (select_couple (minmax x k L)) else X_min_row r k)"
    by (rule ext) (simp add: pixel_fields Suc.IH less_Suc_eq)
  show ?case
    unfolding step using 1 2 3 4 5 by blast
qed

lemma filter_row_interior:
  assumes "L \<le> j" "j + L < N"
  shows "K_hor_row (filter_row X_in G_in Y_in M N L rho alpha_X tau out0 gX0 gG0 KTI0 i) j
         = FC_pixel (X_in i) (G_in i) (Y_in i) (grad X_in M N gX0 i) (grad G_in M N gG0 i)
             L rho alpha_X tau j (stale_center (X_in i) (G_in i) L rho (KTI0 i L) j) (K_hor out0 i j)"
    and "K_TI_hor_row (filter_row X_in G_in Y_in M N L rho alpha_X tau out0 gX0 gG0 KTI0 i) j
         = K_TI_center (X_in i) (G_in i) L rho j"
    and "X_max_row (filter_row X_in G_in Y_in M N L rho alpha_X tau out0 gX0 gG0 KTI0 i) j
         = fst (select_couple (minmax (X_in i) j L))"
    and "X_min_row (filter_row X_in G_in Y_in M N L rho alpha_X tau out0 gX0 gG0 KTI0 i) j
         = snd (select_couple (minmax (X_in i) j L))"
proof -
  define d where "d = N - L - L"
  have N: "N - L = L + d" and j: "j < L + d"
    using assms by (simp_all add: d_def)
  let ?r0 = "\<lparr>K_hor_row = K_hor out0 i, K_TI_hor_row = K_TI_hor out0 i,
        X_max_row = X_max out0 i, X_min_row = X_min out0 i, K_TI_row = KTI0 i\<rparr>"
  let ?p = "pixel (X_in i) (G_in i) (Y_in i) (grad X_in M N gX0 i) (grad G_in M N gG0 i)
      L rho alpha_X tau"
  have r: "filter_row X_in G_in Y_in M N L rho alpha_X tau out0 gX0 gG0 KTI0 i
           = fold ?p [L..<L + d] ?r0"
    unfolding filter_row_def N ..
  note f = fold_pixel_upt [of "X_in i" "G_in i" "Y_in i" "grad X_in M N gX0 i" "grad G_in M N gG0 i"
      L rho alpha_X tau d ?r0]
  show "K_hor_row (filter_row X_in G_in Y_in M N L rho alpha_X tau out0 gX0 gG0 KTI0 i) j
         = FC_pixel (X_in i) (G_in i) (Y_in i) (grad X_in M N gX0 i) (grad G_in M N gG0 i)
             L rho alpha_X tau j (stale_center (X_in i) (G_in i) L rho (KTI0 i L) j) (K_hor out0 i j)"
    unfolding r using assms(1) j by (simp add: f)
  show "K_TI_hor_row (filter_row X_in G_in Y_in M N L rho alpha_X tau out0 gX0 gG0 KTI0 i) j
         = K_TI_center (X_in i) (G_in i) L rho j"
    unfolding r using assms(1) j by (simp add: f)
  show "X_max_row (filter_row X_in G_in Y_in M N L rho alpha_X tau out0 gX0 gG0 KTI0 i) j
         = fst (select_couple (minmax (X_in i) j L))"
    unfolding r using assms(1) j by (simp add: f)
  show "X_min_row (filter_row X_in G_in Y_in M N L rho alpha_X tau out0 gX0 gG0 KTI0 i) j
         = snd (select_couple (minmax (X_in i) j L))"
    unfolding r using assms(1) j by (simp add: f)
qed

lemma filter_loops_interior:
  assumes "L \<le> i" "i + L < M" "L \<le> j" "j + L < N"
  shows "K_hor (filter_loops X_in G_in Y_in M N L rho alpha_X tau out0 gX0 gG0 KTI0) i j
         = FC_pixel (X_in i) (G_in i) (Y_in i) (grad X_in M N gX0 i) (grad G_in M N gG0 i)
             L rho alpha_X tau j (stale_center (X_in i) (G_in i) L rho (KTI0 i L) j) (K_hor out0 i j)"
    and "K_TI_hor (filter_loops X_in G_in Y_in M N L rho alpha_X tau out0 gX0 gG0 KTI0) i j
         = K_TI_center (X_in i) (G_in i) L rho j"
    and "X_max (filter_loops X_in G_in Y_in M N L rho alpha_X tau out0 gX0 gG0 KTI0) i j
         = fst (select_couple (minmax (X_in i) j L))"
    and "X_min (filter_loops X_in G_in Y_in M N L rho alpha_X tau out0 gX0 gG0 KTI0) i j
         = snd (select_couple (minmax (X_in i) j L))"
proof -
  have i: "i < M - L" using assms by arith
  show "K_hor (filter_loops X_in G_in Y_in M N L rho alpha_X tau out0 gX0 gG0 KTI0) i j
         = FC_pixel (X_in i) (G_in i) (Y_in i) (grad X_in M N gX0 i) (grad G_in M N gG0 i)
             L rho alpha_X tau j (stale_center (X_in i) (G_in i) L rho (KTI0 i L) j) (K_hor out0 i j)"
    using i assms by (simp add: filter_loops_def Let_def filter_row_interior)
  show "K_TI_hor (filter_loops X_in G_in Y_in M N L rho alpha_X tau out0 gX0 gG0 KTI0) i j
         = K_TI_center (X_in i) (G_in i) L rho j"
    using i assms by (simp add: filter_loops_def Let_def filter_row_interior)
  show "X_max (filter_loops X_in G_in Y_in M N L rho alpha_X tau out0 gX0 gG0 KTI0) i j
         = fst (select_couple (minmax (X_in i) j L))"
    using i assms by (simp add: filter_loops_def Let_def filter_row_interior)
  show "X_min (filter_loops X_in G_in Y_in M N L rho alpha_X tau out0 gX0 gG0 KTI0) i j
         = snd (select_couple (minmax (X_in i) j L))"
    using i assms by (simp add: filter_loops_def Let_def filter_row_interior)
qed

lemma K_TI_val_center_bounds:
  assumes "xmin \<le> x j" "x j \<le> xmax"
  shows "if x j > g j
         then 0 \<le> K_TI_val x g L rho j xmax xmin L \<and> K_TI_val x g L rho j xmax xmin L \<le> x j - g j
         else x j - g j \<le> K_TI_val x g L rho j xmax xmin L \<and> K_TI_val x g L rho j xmax xmin L \<le> 0"
  using assms by (auto simp add: K_TI_val_def Let_def fmin_min fmax_max)

lemma K_TI_center_bounds:
  "if x j > g j
   then 0 \<le> K_TI_center x g L rho j \<and> K_TI_center x g L rho j \<le> x j - g j
   else x j - g j \<le> K_TI_center x g L rho j \<and> K_TI_center x g L rho j \<le> 0"
  unfolding K_TI_center_def
  using select_couple_bounds [of x j L] by (intro K_TI_val_center_bounds) simp_all


lemma window_loop_W_K_sum_nonneg:
  "0 \<le> W_K_sum (window_loop x g y gx gg L rho alpha_X tau j xmax xmin kti k0)"
  unfolding window_loop_eq window_state.simps
  by (simp add: sum_nonneg W_K_val_nonneg)

lemma alpha_K_den_pos:
  assumes "0 < gamma_2" "gamma_2 \<le> gamma_1"
  shows "0 < alpha_K_den xmax xmin gamma_1 gamma_2"
  using assms by (simp add: alpha_K_den_def fmin_min fmax_max)


subsection \<open>Gray images\<close>

text \<open>
  Where the channel equals green the centre chroma is 0, and a pixel entered with a zero
  scratch centre and a zero output cell leaves 0 in \<open>K_hor[i, j]\<close>.
\<close>

lemma K_TI_center_gray: "x j = g j \<Longrightarrow> K_TI_center x g L rho j = 0"
  using K_TI_center_bounds [of g j x L rho] by simp

lemma stale_center_gray:
  "(\<And>k. x k = g k) \<Longrightarrow> stale_center x g L rho 0 j = 0"
  by (simp add: stale_center_def K_TI_center_gray)

lemma center_read_zero: "center_read 0 0 L l = 0"
  by (simp add: center_read_def)

lemma clip_zero: "clip K 0 = 0"
  by (simp add: clip_def)

lemma FC_pixel_gray:
  assumes "x j = g j"
  shows "FC_pixel x g y gx gg L rho alpha_X tau j 0 0 = 0"
proof -
  have kc: "K_TI_val x g L rho j (fst (select_couple (minmax x j L)))
          (snd (select_couple (minmax x j L))) L = 0"
    using K_TI_center_gray [of x j g L rho] assms by (simp add: K_TI_center_def)
  show ?thesis
    unfolding FC_pixel_def Let_def kc center_read_zero clip_zero
    by simp
qed

text \<open>
  When every uninitialised array happens to hold zeros, a gray image comes back
  unchanged at every pixel with full windows along both axes.
\<close>

lemma gray_preserved_when_memory_zeroed:
  assumes L: "0 \<le> L_hor" "L_hor < 2 ^ 30" "0 \<le> L_ver" "L_ver < 2 ^ 30"
    and wf: "3 \<le> shape2 I_in" "3 \<le> length rho"
    and i: "nat L_hor \<le> i" "i + nat L_hor < shape0 I_in"
           "nat L_ver \<le> i" "i + nat L_ver < shape0 I_in"
    and j: "nat L_hor \<le> j" "j + nat L_hor < shape1 I_in"
           "nat L_ver \<le> j" "j + nat L_ver < shape1 I_in"
    and gray: "\<And>i j. samples I_in i j 0 = samples I_in i j 1"
              "\<And>i j. samples I_in i j 2 = samples I_in i j 1"
  shows "\<exists>I_out. correct_chromatic_aberration I_in L_hor L_ver rho tau alpha_R alpha_B
                    beta_R beta_B gamma_1 gamma_2 (uninit 0) = Inr I_out
           \<and> samples I_out i j 0 = samples I_in i j 0
           \<and> samples I_out i j 1 = samples I_in i j 1
           \<and> samples I_out i j 2 = samples I_in i j 2"
  using assms
  by (simp add: correct_chromatic_aberration_def filtering_returns arbitrated_def
      arbitration_def merge_def transpose_filtered_def transpose2D_def
      filter_loops_interior buffers_def uninit_def flat_def Let_def
      K_TI_center_gray stale_center_gray FC_pixel_gray)

subsection \<open>Evaluation on concrete inputs\<close>

lemma upt_0_1: "[0..<1] = [0]"
  by (simp add: upt_rec)

lemma sum_upt_3: "(\<Sum>l = 0..<(3::nat). f l) = f 0 + f 1 + (f 2 :: real)"
  by (simp add: eval_nat_numeral)

text \<open>
  A \<open>1 \<times> 1\<close> plane with \<open>L = 0\<close>, all samples 0, whose output buffer \<open>K_hor\<close> holds 1 on
  entry: the only chroma of the window is 0 and so is the weighted sum of the
  specification, but the loop adds onto the 1 the buffer held.
\<close>

lemma FC_accumulates_onto_buffer:
  "(case ti_and_ca_filtering1D (flat 0) (flat 0) (flat 0) 1 1 0 [0, 1, 0] 1 0
          (buffers (uninit 1) 0) (flat 1) (flat 1) (flat 0) of
      Inl e \<Rightarrow> False
    | Inr out \<Rightarrow> K_hor out 0 0 = 20000000100000000 / 10000000200000001)
   \<and> spec_FC (flat 0 0) (flat 0 0) (flat 0 0)
        (grad (flat 0) 1 1 (flat 1) 0) (grad (flat 0) 1 1 (flat 1) 0) 0 [0, 1, 0] 1 0 0 = 0"
  by (simp add: filtering_returns filter_loops_interior FC_pixel_def spec_FC_def
      K_TI_val_def W_K_val_def W_K_den_def center_read_def stale_center_def
      minmax_def select_couple_def buffers_def uninit_def flat_def grad_def
      clip_def sign_def fmin_def fmax_def fabs_def eps_def Let_def)

text \<open>
  A \<open>3 \<times> 3\<close> plane with \<open>L = 1\<close>, \<open>X = 1\<close> and \<open>G = 0\<close> everywhere, the output buffers
  zero but the scratch array \<open>K_TI\<close> holding 1/2: every chroma of the window is 1, the
  centre is 1, but iteration \<open>l = 0\<close> clips against the 1/2 it finds in \<open>K_TI[i, L]\<close>.
\<close>

lemma FC_reads_stale_center:
  "(case ti_and_ca_filtering1D (flat 1) (flat 0) (flat (1 / 2)) 3 3 1 [0, 1, 0] 1 0
          (buffers (uninit 0) 0) (flat 0) (flat 0) (flat (1 / 2)) of
      Inl e \<Rightarrow> False
    | Inr out \<Rightarrow> K_hor out 1 1 = 25000000000000000 / 30000000100000001)
   \<and> spec_FC (flat 1 1) (flat 0 1) (flat (1 / 2) 1)
        (grad (flat 1) 3 3 (flat 0) 1) (grad (flat 0) 3 3 (flat 0) 1) 1 [0, 1, 0] 1 0 1
       = 30000000000000000 / 30000000100000001"
  by (simp add: filtering_returns filter_loops_interior FC_pixel_def spec_FC_def
      K_TI_val_def W_K_val_def W_K_den_def center_read_def stale_center_def
      minmax_def minmax_step_def select_couple_def buffers_def uninit_def flat_def grad_def
      clip_def sign_def fmin_def fmax_def fabs_def eps_def Let_def upt_0_1 sum_upt_3)

text \<open>
  Where nothing overflows the loop on floats and the loop on reals agree, here on a
  \<open>1 \<times> 1\<close> plane with \<open>L = 0\<close>, \<open>X = 3/8\<close> and \<open>G = 1/8\<close>.
\<close>

lemma f_K_hor_cell_agrees_on_finite_input:
  "f_K_hor_cell (f_flat (3 / 8)) (f_flat (1 / 8)) (f_flat 0) (f_flat 0) (f_flat 0)
     0 [Fin 0, Fin 1, Fin 0] (Fin 1) (Fin 0) 0 (Fin (3 / 8)) (Fin (3 / 8)) (f_flat 0) (Fin 0)
   = Fin (K_hor_ij (window_loop (flat (3 / 8) 0) (flat (1 / 8) 0) (flat 0 0) (flat 0 0)
                      (flat 0 0) 0 [0, 1, 0] 1 0 0 (3 / 8) (3 / 8) (flat 0 0) 0)
          / (W_K_sum (window_loop (flat (3 / 8) 0) (flat (1 / 8) 0) (flat 0 0) (flat 0 0)
                        (flat 0 0) 0 [0, 1, 0] 1 0 0 (3 / 8) (3 / 8) (flat 0 0) 0) + eps))"
  by (simp add: f_K_hor_cell_def f_window_step_def f_flat_def f_sub_def f_sign_def f_clip_def
      f32_of_def window_loop_def window_step_def W_K_den_def flat_def sign_def clip_def
      fmin_def fmax_def fabs_def eps_def Let_def)

section \<open>The claims\<close>

text \<open>
  C1.  A gray image is not preserved when the uninitialised arrays are not zero.  On the
  \<open>3 \<times> 3\<close> gray image with the samples \<open>(i + 2 j) / 8\<close>, half-sizes 1, and every
  uninitialised array holding 1, the transform returns, and its red sample at the pixel
  \<open>(1, 1)\<close>, the only one with full windows along both axes, is above 1/2 where the input
  has 3/8.
  The centre TI chroma is 0 there; the false colour output is what the buffer held,
  divided by the sum of the weights.  With zeroed arrays the image is preserved
  (\<open>gray_preserved_when_memory_zeroed\<close>).
\<close>

theorem gray_image_not_preserved:
  "case correct_chromatic_aberration (gray_image 3 3 ramp) 1 1 [0, 1, 0] 1 1 1 0 0 1 (1 / 8)
          (uninit 1) of
     Inl e \<Rightarrow> False
   | Inr I_out \<Rightarrow>
       samples I_out 1 1 0
         = 83705361210379514665178803571429 / 162500006513392907678571742857144
       \<and> 1 / 2 < samples I_out 1 1 0
       \<and> samples (gray_image 3 3 ramp) 1 1 0 = 3 / 8"
  by (simp add: correct_chromatic_aberration_def filtering_returns arbitrated_def
      arbitration_def merge_def transpose_filtered_def transpose2D_def
      contrast_hor_def contrast_ver_def contrast_pixel_def contrast_hor_step_def
      contrast_ver_step_def alpha_K_def alpha_K_den_def gray_image_def ramp_def
      filter_loops_interior FC_pixel_def
      K_TI_center_def K_TI_val_def W_K_val_def W_K_den_def center_read_def stale_center_def
      minmax_def minmax_step_def select_couple_def buffers_def uninit_def flat_def grad_def
      clip_def sign_def fmin_def fmax_def fabs_def eps_def Let_def upt_0_1 sum_upt_3)

text \<open>
  C2.  The false colour output is not the weighted sum of the specification.  At every
  pixel of the computed region the loops leave \<open>FC_pixel\<close> in \<open>K_hor[i, j]\<close>
  (\<open>filter_loops_interior\<close>): the sum starts from what the output buffer held, and the
  iterations \<open>l < L\<close> read the centre of the previous pixel of the row, or what the scratch
  array held at the first pixel.  On the two inputs below the output of the loops and
  the value of the specification differ: about 2 against 0, and about 5/6 against 1.
\<close>

theorem FC_output_depends_on_buffers:
  "((case ti_and_ca_filtering1D (flat 0) (flat 0) (flat 0) 1 1 0 [0, 1, 0] 1 0
          (buffers (uninit 1) 0) (flat 1) (flat 1) (flat 0) of
      Inl e \<Rightarrow> False
    | Inr out \<Rightarrow> K_hor out 0 0 = 20000000100000000 / 10000000200000001)
   \<and> spec_FC (flat 0 0) (flat 0 0) (flat 0 0)
        (grad (flat 0) 1 1 (flat 1) 0) (grad (flat 0) 1 1 (flat 1) 0) 0 [0, 1, 0] 1 0 0 = 0)
   \<and> ((case ti_and_ca_filtering1D (flat 1) (flat 0) (flat (1 / 2)) 3 3 1 [0, 1, 0] 1 0
          (buffers (uninit 0) 0) (flat 0) (flat 0) (flat (1 / 2)) of
      Inl e \<Rightarrow> False
    | Inr out \<Rightarrow> K_hor out 1 1 = 25000000000000000 / 30000000100000001)
   \<and> spec_FC (flat 1 1) (flat 0 1) (flat (1 / 2) 1)
        (grad (flat 1) 3 3 (flat 0) 1) (grad (flat 0) 3 3 (flat 0) 1) 1 [0, 1, 0] 1 0 1
       = 30000000000000000 / 30000000100000001)"
  by (rule conjI [OF FC_accumulates_onto_buffer FC_reads_stale_center])

text \<open>
  C3.  The horizontal pass of the arbitration does not scan the half-windows of the
  filter: its East candidates are the columns \<open>j\<close> to \<open>j + L - 1\<close> and its West candidates
  the columns \<open>j - L + 1\<close> to \<open>j\<close>.  On the \<open>3 \<times> 3\<close> plane that is 1 at \<open>(1, 2)\<close> and 0 elsewhere,
  with \<open>G = X\<close> and \<open>L = 1\<close>, the source's contrast at \<open>(1, 1)\<close> is 0, while the East
  half-window \<open>[j+1, j+L]\<close> of the specification holds the 1 and gives the contrast 1.
\<close>

theorem horizontal_contrast_windows_shifted:
  "contrast_hor (dot 1 2) (dot 1 2) 1 3 3 1 (flat 0) 1 1 = 0
   \<and> spec_contrast_hor (dot 1 2) (dot 1 2) 1 1 1 1 = 1"
  by (simp add: contrast_hor_def contrast_pixel_def contrast_hor_step_def select_couple_def
      spec_contrast_hor_def dot_def fabs_abs upt_0_1 Let_def upt_rec)

text \<open>
  C4.  The vertical pass is not the horizontal pass on transposed planes.  On the
  \<open>3 \<times> 3\<close> plane that is 1 at \<open>(2, 1)\<close> and 0 elsewhere, with \<open>G = X\<close> and \<open>L = 1\<close>, the vertical
  contrast at \<open>(1, 1)\<close> is 1, and the horizontal pass run on the transposed planes and
  transposed back gives 0 there.
\<close>

theorem vertical_contrast_not_transposed_horizontal:
  "contrast_ver (dot 2 1) (dot 2 1) 1 3 3 1 (flat 0) 1 1 = 1
   \<and> transpose2D (contrast_hor (transpose2D (dot 2 1)) (transpose2D (dot 2 1)) 1 3 3 1
        (flat 0)) 1 1 = 0"
  by (simp add: contrast_hor_def contrast_ver_def contrast_pixel_def contrast_hor_step_def
      contrast_ver_step_def select_couple_def transpose2D_def
      dot_def fabs_abs upt_0_1 Let_def)




text \<open>
  C6, as the code has it.  Envelope invariant on the region the filter computes: for a
  half-size \<open>0 \<le> L < 2^30\<close> and every pixel \<open>(i, j)\<close> with \<open>L \<le> i < M - L\<close> and
  \<open>L \<le> j < N - L\<close>, the filter returns and its envelope encloses the sample:
  \<open>X_min[i, j] \<le> X_in[i, j] \<le> X_max[i, j]\<close>, whatever the buffers held.
\<close>

theorem envelope_invariant:
  assumes "0 \<le> L" "L < 2 ^ 30" "3 \<le> length rho"
    and "nat L \<le> i" "i + nat L < M" "nat L \<le> j" "j + nat L < N"
  shows "\<exists>out. ti_and_ca_filtering1D X_in G_in Y_in M N L rho alpha_X tau out0 gX0 gG0 KTI0 = Inr out
           \<and> X_min out i j \<le> X_in i j \<and> X_in i j \<le> X_max out i j"
  using assms select_couple_bounds [of "X_in i" j "nat L"]
  by (simp add: filtering_returns filter_loops_interior)

theorem envelope_invariant_witness:
  "(0::int) \<le> 1 \<and> (1::int) < 2 ^ 30 \<and> 3 \<le> length [0, 1, 0 :: sample]
   \<and> nat 1 \<le> (1::nat) \<and> (1::nat) + nat 1 < 3 \<and> nat 1 \<le> (2::nat) \<and> (2::nat) + nat 1 < 4
   \<and> (\<exists>out. ti_and_ca_filtering1D ramp (flat 1) (flat 1) 3 4 1 [0, 1, 0] 1 1
                (buffers (uninit 1) 0) (flat 1) (flat 1) (flat 1) = Inr out
           \<and> X_min out 1 2 \<le> ramp 1 2 \<and> ramp 1 2 \<le> X_max out 1 2)"
  using envelope_invariant [of 1 "[0, 1, 0]" 1 3 2 4 ramp "flat 1" "flat 1" 1 1
      "buffers (uninit 1) 0" "flat 1" "flat 1" "flat 1"]
  by simp

text \<open>
  C6 as stated fails on the rows the filter skips.  On a \<open>3 \<times> 5\<close> plane with \<open>L = 1\<close> the
  pixel \<open>(0, 2)\<close> has its full window along the filtered axis, but the row loop runs over
  \<open>L \<le> i < M - L\<close> only, so \<open>X_max[0, 2]\<close> is what the buffer held: 0 here, below the sample 1.
\<close>

theorem envelope_fails_on_skipped_row:
  "case ti_and_ca_filtering1D (flat 1) (flat 1) (flat 1) 3 5 1 [0, 1, 0] 1 1
          (buffers (uninit 0) 0) (flat 0) (flat 0) (flat 0) of
     Inl e \<Rightarrow> False
   | Inr out \<Rightarrow> X_max out 0 2 = 0 \<and> flat 1 0 2 = 1
       \<and> \<not> (X_min out 0 2 \<le> flat 1 0 2 \<and> flat 1 0 2 \<le> X_max out 0 2)"
  by (simp add: filtering_returns filter_loops_def buffers_def uninit_def flat_def Let_def)

text \<open>
  C7.  For \<open>gamma_1 \<ge> gamma_2 > 0\<close> the arbitration weight the source computes is the
  weight of the specification, \<open>clamp(max(contrast, 0) / clamp(X_max - X_min, gamma_2,
  gamma_1), 0, 1)\<close>, and lies between 0 and 1, for every contrast and every envelope.
\<close>

theorem alpha_in_unit_interval:
  assumes "0 < gamma_2" "gamma_2 \<le> gamma_1"
  shows "alpha_K c xmax xmin gamma_1 gamma_2 = spec_alpha c xmax xmin gamma_1 gamma_2
       \<and> 0 \<le> alpha_K c xmax xmin gamma_1 gamma_2 \<and> alpha_K c xmax xmin gamma_1 gamma_2 \<le> 1"
proof -
  have "0 \<le> fmax c 0 / alpha_K_den xmax xmin gamma_1 gamma_2"
    using alpha_K_den_pos [OF assms, of xmax xmin] by (simp add: fmax_max)
  then show ?thesis
    by (simp add: alpha_K_def alpha_K_den_def spec_alpha_def clamp_def fmin_min fmax_max
        max.commute min.commute max_absorb2)
qed

theorem alpha_in_unit_interval_witness:
  "(0::real) < 1 / 2 \<and> (1::real) / 2 \<le> 1
   \<and> alpha_K 3 5 3 1 (1 / 2) = spec_alpha 3 5 3 1 (1 / 2)
   \<and> 0 \<le> alpha_K 3 5 3 1 (1 / 2) \<and> alpha_K 3 5 3 1 (1 / 2) \<le> 1"
  using alpha_in_unit_interval [of "1 / 2" 1 3 5 3]
  by simp

text \<open>
  C8.  \<open>clip\<close> is idempotent in its first argument, and clipping against the reference 0
  gives 0 whatever the value.
\<close>

theorem clip_idempotent_and_zero:
  "clip (clip K K_ref) K_ref = clip K K_ref \<and> clip K 0 = 0"
  by (simp add: clip_def fmin_def fmax_def)

text \<open>
  C9, as the code has it.  In exact arithmetic, that is as long as no operation on floats
  overflows, the three divisions of the filter and of the arbitration have positive
  divisors: the weight of iteration \<open>l\<close> is divided by \<open>W_K_den\<close>, the output cell of a
  pixel by \<open>W_K_sum[i] + eps\<close> after the window loop, whatever the scratch row and the
  cell held, and, for \<open>gamma_1 \<ge> gamma_2 > 0\<close>, the arbitration weight by \<open>alpha_K_den\<close>.
\<close>

theorem denominators_positive:
  assumes "0 < gamma_2" "gamma_2 \<le> gamma_1"
  shows "0 < W_K_den y gx gg L alpha_X j l k
       \<and> 0 < W_K_sum (window_loop x g y gx gg L rho alpha_X tau j xmax xmin kti k0) + eps
       \<and> 0 < alpha_K_den xmax' xmin' gamma_1 gamma_2
       \<and> W_K_sum (window_step x g y gx gg L rho alpha_X tau j xmax xmin l s)
           = W_K_sum s
             + (if sign (K_TI_i (window_step x g y gx gg L rho alpha_X tau j xmax xmin l s) L)
                     = sign (K_TI_i (window_step x g y gx gg L rho alpha_X tau j xmax xmin l s) l)
                   \<or> fabs (K_TI_i (window_step x g y gx gg L rho alpha_X tau j xmax xmin l s) l)
                       < tau
                then 1 else 0)
               / W_K_den y gx gg L alpha_X j l
                   (K_TI_i (window_step x g y gx gg L rho alpha_X tau j xmax xmin l s) l)
       \<and> K_hor_row (pixel x g y gx gg L rho alpha_X tau j r) j
           = K_hor_ij (window_loop x g y gx gg L rho alpha_X tau j
                         (fst (select_couple (minmax x j L))) (snd (select_couple (minmax x j L)))
                         (K_TI_row r) (K_hor_row r j))
             / (W_K_sum (window_loop x g y gx gg L rho alpha_X tau j
                           (fst (select_couple (minmax x j L)))
                           (snd (select_couple (minmax x j L))) (K_TI_row r) (K_hor_row r j))
                + eps)
       \<and> alpha_K c xmax' xmin' gamma_1 gamma_2
           = fmin (fmax c 0 / alpha_K_den xmax' xmin' gamma_1 gamma_2) 1"
proof -
  have 1: "0 < W_K_den y gx gg L alpha_X j l k"
    by (rule W_K_den_pos)
  have 2: "0 < W_K_sum (window_loop x g y gx gg L rho alpha_X tau j xmax xmin kti k0) + eps"
    using window_loop_W_K_sum_nonneg [of x g y gx gg L rho alpha_X tau j xmax xmin kti k0]
      eps_pos by simp
  have 3: "0 < alpha_K_den xmax' xmin' gamma_1 gamma_2"
    by (rule alpha_K_den_pos [OF assms])
  have 4: "W_K_sum (window_step x g y gx gg L rho alpha_X tau j xmax xmin l s)
           = W_K_sum s
             + (if sign (K_TI_i (window_step x g y gx gg L rho alpha_X tau j xmax xmin l s) L)
                     = sign (K_TI_i (window_step x g y gx gg L rho alpha_X tau j xmax xmin l s) l)
                   \<or> fabs (K_TI_i (window_step x g y gx gg L rho alpha_X tau j xmax xmin l s) l)
                       < tau
                then 1 else 0)
               / W_K_den y gx gg L alpha_X j l
                   (K_TI_i (window_step x g y gx gg L rho alpha_X tau j xmax xmin l s) l)"
    unfolding window_step_K_TI_val Let_def window_state.simps ..
  have 5: "K_hor_row (pixel x g y gx gg L rho alpha_X tau j r) j
           = K_hor_ij (window_loop x g y gx gg L rho alpha_X tau j
                         (fst (select_couple (minmax x j L))) (snd (select_couple (minmax x j L)))
                         (K_TI_row r) (K_hor_row r j))
             / (W_K_sum (window_loop x g y gx gg L rho alpha_X tau j
                           (fst (select_couple (minmax x j L)))
                           (snd (select_couple (minmax x j L))) (K_TI_row r) (K_hor_row r j))
                + eps)"
    by (simp add: pixel_def Let_def split_beta)
  have 6: "alpha_K c xmax' xmin' gamma_1 gamma_2
           = fmin (fmax c 0 / alpha_K_den xmax' xmin' gamma_1 gamma_2) 1"
    by (rule alpha_K_def)
  show ?thesis
    using 1 2 3 4 5 6 by blast
qed

theorem denominators_positive_witness:
  "(0::real) < 1 / 2 \<and> (1::real) / 2 \<le> 1
   \<and> 0 < W_K_den (ramp 1) (flat 1 1) (flat 1 1) 1 1 2 0 3
   \<and> 0 < W_K_sum (window_loop (ramp 1) (flat 1 1) (ramp 1) (flat 1 1) (flat 1 1) 1 [0, 1, 0]
                     1 1 2 5 3 (flat 1 1) 1) + eps
   \<and> 0 < alpha_K_den 5 3 1 (1 / 2)"
proof -
  have h: "(0::real) < 1 / 2" "(1::real) / 2 \<le> 1"
    by simp_all
  show ?thesis
    using h denominators_positive [OF h, of "ramp 1" "flat 1 1" "flat 1 1" 1 1 2 0 3
      "ramp 1" "flat 1 1" "[0, 1, 0]" 1 5 3 "flat 1 1" 1 5 3]
    by blast
qed

text \<open>
  C9 as stated fails on floats: a division yields NaN on finite inputs.  On a \<open>1 \<times> 1\<close>
  plane with \<open>L = 0\<close>, \<open>X = 3e38\<close> and \<open>G = -3e38\<close>, all buffers zero, the chroma
  \<open>X - G\<close> overflows to infinity, the weight is \<open>1 / inf = 0\<close>, the product of the weight
  and the clipped chroma is \<open>0 * inf\<close>, and the division of the cell by the positive
  divisor \<open>0 + eps\<close> returns NaN.
\<close>

theorem FC_division_yields_NaN:
  "f_K_hor_cell (f_flat (3 * 10 ^ 38)) (f_flat (- 3 * 10 ^ 38)) (f_flat 0) (f_flat 0) (f_flat 0)
     0 [Fin 0, Fin 1, Fin 0] (Fin 1) (Fin 0) 0 (Fin (3 * 10 ^ 38)) (Fin (3 * 10 ^ 38))
     (f_flat 0) (Fin 0) = NaN"
  by (simp add: f_K_hor_cell_def f_window_step_def f_flat_def f_sub_def f_sign_def f_clip_def
      f32_of_def eps_def Let_def)




end
